theory Spec2Isabelle
  imports Complex_Main "HOL-Library.Multiset"
begin

section \<open>The bulk-load DAG of ask-astro: a shallow embedding\<close>

text \<open>
  The source is \<^verbatim>\<open>airflow/dags/ingestion/ask-astro-load.py\<close>. Every task function of
  \<^verbatim>\<open>ask_astro_load_bulk\<close> becomes a HOL function of the same name. A Python exception is
  a value \<open>Inl e\<close> of the result type \<open>py_error + 'a\<close>; a normal return is \<open>Inr v\<close>.
  Functions of third-party packages (langchain, html2text, weaviate, pandas' float
  conversions) are not part of the repository: they are parameters of the model.
\<close>

subsection \<open>Python exceptions as values\<close>

datatype py_error =
    KeyError | IndexError | TypeError | AttributeError
  | UnboundLocalError | ValueError | ValidationError | FileNotFoundError
  | OverflowError | OSError

definition ebind :: "py_error + 'a \<Rightarrow> ('a \<Rightarrow> py_error + 'b) \<Rightarrow> py_error + 'b" where
  "ebind m f = (case m of Inl e \<Rightarrow> Inl e | Inr x \<Rightarrow> f x)"

subsection \<open>Strings\<close>

text \<open>
  \<open>starts_with p s\<close> is \<^verbatim>\<open>s.startswith(p)\<close> and \<open>contains p s\<close> is Python's
  \<^verbatim>\<open>p in s\<close> on strings.
\<close>

fun starts_with :: "string \<Rightarrow> string \<Rightarrow> bool" where
  "starts_with [] s = True"
| "starts_with (p # ps) [] = False"
| "starts_with (p # ps) (c # cs) = (p = c \<and> starts_with ps cs)"

fun contains :: "string \<Rightarrow> string \<Rightarrow> bool" where
  "contains p [] = (p = [])"
| "contains p (c # cs) = (starts_with p (c # cs) \<or> contains p cs)"

subsection \<open>The GraphQL response\<close>

text \<open>
  \<^verbatim>\<open>weaviate_hook.run\<close> returns the decoded JSON of the response. A JSON object is an
  association list read with \<open>map_of\<close>. JSON numbers are integers here: the count that
  the Aggregate query reports is one.
\<close>

datatype json =
    JNull | JBool bool | JInt int | JStr string
  | JList "json list" | JDict "(string \<times> json) list"

text \<open>\<^verbatim>\<open>if response\<close>: Python truthiness.\<close>

fun truthy :: "json \<Rightarrow> bool" where
  "truthy JNull = False"
| "truthy (JBool b) = b"
| "truthy (JInt n) = (n \<noteq> 0)"
| "truthy (JStr s) = (s \<noteq> [])"
| "truthy (JList xs) = (xs \<noteq> [])"
| "truthy (JDict kvs) = (kvs \<noteq> [])"

text \<open>\<^verbatim>\<open>v[k]\<close> with a string key.\<close>

fun getitem_str :: "json \<Rightarrow> string \<Rightarrow> py_error + json" where
  "getitem_str (JDict kvs) k = (case map_of kvs k of None \<Rightarrow> Inl KeyError | Some v \<Rightarrow> Inr v)"
| "getitem_str v k = Inl TypeError"

text \<open>\<^verbatim>\<open>v[i]\<close> with a non-negative integer index.\<close>

fun getitem_int :: "json \<Rightarrow> nat \<Rightarrow> py_error + json" where
  "getitem_int (JList xs) i = (if i < length xs then Inr (xs ! i) else Inl IndexError)"
| "getitem_int (JStr s) i = (if i < length s then Inr (JStr [s ! i]) else Inl IndexError)"
| "getitem_int (JDict kvs) i = Inl KeyError"
| "getitem_int v i = Inl TypeError"

text \<open>\<^verbatim>\<open>v >= n\<close> for an integer \<open>n\<close>: defined on numbers (a bool is an int in Python).\<close>

fun ge_int :: "json \<Rightarrow> int \<Rightarrow> py_error + bool" where
  "ge_int (JInt c) n = Inr (c \<ge> n)"
| "ge_int (JBool b) n = Inr ((if b then 1 else 0) \<ge> n)"
| "ge_int v n = Inl TypeError"

text \<open>\<^verbatim>\<open>response['data']['Aggregate'][class_name][0]['meta']['count']\<close>\<close>

definition reported_count :: "json \<Rightarrow> string \<Rightarrow> py_error + json" where
  "reported_count response class_name =
     ebind (getitem_str response ''data'') (\<lambda>d.
     ebind (getitem_str d ''Aggregate'') (\<lambda>a.
     ebind (getitem_str a class_name) (\<lambda>c.
     ebind (getitem_int c 0) (\<lambda>c0.
     ebind (getitem_str c0 ''meta'') (\<lambda>m.
     getitem_str m ''count'')))))"

subsection \<open>Branch tasks\<close>

text \<open>
  A branch task returns a list of task ids to follow, or \<^verbatim>\<open>None\<close> to skip everything
  downstream: \<open>string list option\<close>.
\<close>

definition recreate_schema_branch :: "bool \<Rightarrow> string list option" where
  "recreate_schema_branch schema_exists =
     (if schema_exists then Some [''check_object_count'']
      else if \<not> schema_exists then Some [''create_schema'']
      else None)"

definition weaviate_doc_count :: "(string \<times> int) list" where
  "weaviate_doc_count = [(''Docs'', 7307)]"

definition extract_task_ids :: "string list" where
  "extract_task_ids =
     [''extract_github_markdown'', ''extract_github_rst'', ''extract_github_python'',
      ''extract_stack_overflow'', ''extract_slack'', ''extract_registry'',
      ''extract_github_issues'']"

text \<open>
  The body of the \<^verbatim>\<open>try\<close> block (creating the hook, connecting, running the query)
  either returns a response or raises an exception. The handler reads the attributes
  \<^verbatim>\<open>status_code\<close> and \<^verbatim>\<open>message\<close> of the exception; an attribute that the
  exception does not have is \<open>None\<close> in the record.
\<close>

record exn =
  status_code :: "int option"
  message :: "string option"

datatype query_outcome = Returned json | Raised exn

text \<open>
  The \<^verbatim>\<open>except\<close> clause binds \<^verbatim>\<open>response = None\<close> only under its \<^verbatim>\<open>if\<close>;
  on the other path \<^verbatim>\<open>response\<close> is still unbound when it is read after the handler.
\<close>

definition except_handler :: "exn \<Rightarrow> py_error + json" where
  "except_handler e =
     (case status_code e of
        None \<Rightarrow> Inl AttributeError
      | Some c \<Rightarrow>
          if c = 422 then
            (case message e of
               None \<Rightarrow> Inl AttributeError
             | Some m \<Rightarrow>
                 if contains ''no graphql provider present'' m then Inr JNull
                 else Inl UnboundLocalError)
          else Inl UnboundLocalError)"

definition check_object_count ::
    "(string \<times> int) list \<Rightarrow> string \<Rightarrow> query_outcome \<Rightarrow> py_error + string list option" where
  "check_object_count doc_count class_name outcome =
     ebind (case outcome of Returned r \<Rightarrow> Inr r | Raised e \<Rightarrow> except_handler e) (\<lambda>response.
       if \<not> truthy response then Inr (Some extract_task_ids)
       else
         ebind (reported_count response class_name) (\<lambda>count.
         ebind (case map_of doc_count class_name of
                  None \<Rightarrow> Inl KeyError | Some n \<Rightarrow> Inr n) (\<lambda>target.
         ebind (ge_int count target) (\<lambda>reached.
           if reached then Inr None else Inr (Some extract_task_ids)))))"

subsection \<open>Data frames\<close>

text \<open>
  A cell holds a string, a number, the float \<^verbatim>\<open>NaN\<close> or \<^verbatim>\<open>None\<close>. A finite float is
  modelled by the rational number it denotes; infinite floats are left out. A row is the
  list of its (column, cell) pairs in column order, which is also what
  \<^verbatim>\<open>row.to_dict()\<close> gives; a frame is its list of column names and its rows in index
  order.
\<close>

datatype cell = Str string | Num rat | NaN | PyNone

type_synonym row = "(string \<times> cell) list"

record frame =
  columns :: "string list"
  rows :: "row list"

definition cell_of :: "row \<Rightarrow> string \<Rightarrow> cell" where
  "cell_of r c = (case map_of r c of None \<Rightarrow> NaN | Some v \<Rightarrow> v)"

definition row_fields :: "row \<Rightarrow> string list" where
  "row_fields r = map fst r"

definition set_cell :: "string \<Rightarrow> cell \<Rightarrow> row \<Rightarrow> row" where
  "set_cell c v r =
     (if c \<in> set (row_fields r) then map (\<lambda>(k, x). if k = c then (k, v) else (k, x)) r
      else r @ [(c, v)])"

definition drop_cell :: "string \<Rightarrow> row \<Rightarrow> row" where
  "drop_cell c r = filter (\<lambda>(k, x). k \<noteq> c) r"

text \<open>Keeping the first occurrence of every element, as \<^verbatim>\<open>drop_duplicates\<close> does.\<close>

fun drop_duplicates :: "'a list \<Rightarrow> 'a list" where
  "drop_duplicates [] = []"
| "drop_duplicates (x # xs) = x # drop_duplicates (filter (\<lambda>y. y \<noteq> x) xs)"

text \<open>
  \<^verbatim>\<open>df.drop_duplicates()\<close> on rows: the first of the rows that are equal is kept, and
  two missing values (\<^verbatim>\<open>None\<close> or \<^verbatim>\<open>NaN\<close>) count as equal.
\<close>

definition isna :: "cell \<Rightarrow> bool" where
  "isna v = (v = NaN \<or> v = PyNone)"

definition na_key :: "row \<Rightarrow> row" where
  "na_key r = map (\<lambda>(k, v). (k, if isna v then NaN else v)) r"

fun drop_duplicate_rows :: "row list \<Rightarrow> row list" where
  "drop_duplicate_rows [] = []"
| "drop_duplicate_rows (r # rs) =
     r # drop_duplicate_rows (filter (\<lambda>y. na_key y \<noteq> na_key r) rs)"

text \<open>
  \<^verbatim>\<open>pd.concat(frames, axis=0, ignore_index=True)\<close>: no frame at all is a
  \<^verbatim>\<open>ValueError\<close>; otherwise the columns are the union of the frames' columns in order of
  first appearance, and a row gets \<^verbatim>\<open>NaN\<close> in the columns its frame does not have.
\<close>

definition align :: "string list \<Rightarrow> row \<Rightarrow> row" where
  "align cols r = map (\<lambda>c. (c, cell_of r c)) cols"

definition union_columns :: "frame list \<Rightarrow> string list" where
  "union_columns fs = drop_duplicates (concat (map columns fs))"

definition concat_frames :: "frame list \<Rightarrow> py_error + frame" where
  "concat_frames fs =
     (if fs = [] then Inl ValueError
      else Inr \<lparr>columns = union_columns fs,
                rows = concat (map (\<lambda>f. map (align (union_columns fs)) (rows f)) fs)\<rparr>)"

text \<open>\<^verbatim>\<open>df[name] = df.apply(f, axis=1)\<close>, where \<open>f\<close> sees the index label and the row.\<close>

definition assign_column :: "string \<Rightarrow> (nat \<Rightarrow> row \<Rightarrow> cell) \<Rightarrow> frame \<Rightarrow> frame" where
  "assign_column name f df =
     \<lparr>columns = (if name \<in> set (columns df) then columns df else columns df @ [name]),
      rows = map (\<lambda>(i, r). set_cell name (f i r) r) (enumerate 0 (rows df))\<rparr>"

text \<open>\<^verbatim>\<open>df.drop([name], axis=1)\<close>: a column that is not there is a \<^verbatim>\<open>KeyError\<close>.\<close>

definition drop_column :: "string \<Rightarrow> frame \<Rightarrow> py_error + frame" where
  "drop_column name df =
     (if name \<in> set (columns df)
      then Inr \<lparr>columns = filter (\<lambda>c. c \<noteq> name) (columns df),
                rows = map (drop_cell name) (rows df)\<rparr>
      else Inl KeyError)"

fun emap :: "('a \<Rightarrow> py_error + 'b) \<Rightarrow> 'a list \<Rightarrow> py_error + 'b list" where
  "emap f [] = Inr []"
| "emap f (x # xs) = ebind (f x) (\<lambda>y. ebind (emap f xs) (\<lambda>ys. Inr (y # ys)))"

subsection \<open>Third-party functions\<close>

text \<open>
  The two langchain splitter classes the module imports. \<^verbatim>\<open>generate_uuid5\<close> of weaviate
  hashes \<^verbatim>\<open>str(identifier)\<close>; the module calls it on a string, on a dict and, through
  \<^verbatim>\<open>df.apply(generate_uuid5, axis=1)\<close>, on a row Series, whose \<^verbatim>\<open>str\<close> also shows its
  index label.
\<close>

datatype text_splitter =
    MarkdownHeaderTextSplitter "(string \<times> string) list"
  | RecursiveCharacterTextSplitter

datatype uuid_input = OfStr string | OfDict row | OfSeries nat row

text \<open>
  \<^item> \<open>split_documents sp s\<close>: the \<^verbatim>\<open>page_content\<close> of every document of
    \<^verbatim>\<open>sp.split_documents([Document(page_content=s)])\<close>;
  \<^item> \<open>html2text\<close>: \<^verbatim>\<open>html2text.html2text\<close>;
  \<^item> \<open>generate_uuid5\<close>: \<^verbatim>\<open>weaviate.util.generate_uuid5\<close>;
  \<^item> \<open>parse_float\<close>: the float a string converts to under \<^verbatim>\<open>astype(float)\<close>:
    \<open>None\<close> when the conversion raises, \<open>Some None\<close> for \<^verbatim>\<open>NaN\<close>;
  \<^item> \<open>str_float\<close>: \<^verbatim>\<open>str\<close> of a float;
  \<^item> \<open>fromtimestamp\<close>: \<^verbatim>\<open>str(datetime.fromtimestamp(t))\<close>, or the exception that
    the call raises for a timestamp out of the range of \<^verbatim>\<open>datetime\<close>;
  \<^item> \<open>sort_values\<close>: \<^verbatim>\<open>df.sort_values('ts')\<close> on the rows of \<^verbatim>\<open>extract_slack\<close>;
    its default algorithm is not stable, so the order of rows with equal keys is the
    library's choice.
\<close>

text \<open>
  A row of \<^verbatim>\<open>extract_slack\<close> after line 451, with the columns that are read again:
  \<^verbatim>\<open>ts\<close>, \<^verbatim>\<open>thread_ts\<close> (\<open>None\<close> for \<^verbatim>\<open>NaN\<close>) and \<^verbatim>\<open>content\<close>.
\<close>

record reply =
  reply_ts :: rat
  reply_thread_ts :: "rat option"
  reply_content :: string

record lib =
  split_documents :: "text_splitter \<Rightarrow> string \<Rightarrow> string list"
  html2text :: "string \<Rightarrow> string"
  generate_uuid5 :: "uuid_input \<Rightarrow> string"
  parse_float :: "string \<Rightarrow> rat option option"
  str_float :: "rat \<Rightarrow> string"
  fromtimestamp :: "rat \<Rightarrow> py_error + string"
  sort_values :: "reply list \<Rightarrow> reply list"

subsection \<open>Splitting\<close>

abbreviation newline :: char where "newline \<equiv> CHR 0x0A"
abbreviation backslash :: char where "backslash \<equiv> CHR 0x5C"

text \<open>
  \<^verbatim>\<open>s.replace(old, new)\<close> for a pattern \<open>old\<close> of one character. A \<open>string\<close> is the
  list of the bytes of the UTF-8 encoding; the patterns used are ASCII characters, which
  occur in no multi-byte sequence, so the replacement on bytes is the one on code points.
\<close>

definition replace_char :: "char \<Rightarrow> string \<Rightarrow> string \<Rightarrow> string" where
  "replace_char old new s = concat (map (\<lambda>c. if c = old then new else [c]) s)"

text \<open>Lines 614 and 615: the content of the record made from one chunk.\<close>

definition chunk_content :: "lib \<Rightarrow> string \<Rightarrow> string" where
  "chunk_content l chunk =
     replace_char backslash [] (replace_char newline '' '' (html2text l chunk))"

text \<open>
  Line 609, \<^verbatim>\<open>Document(page_content=x)\<close>: the field is a string, and the validation
  of the document class turns a float into its \<^verbatim>\<open>str\<close> (\<^verbatim>\<open>NaN\<close> into \<^verbatim>\<open>nan\<close>) and
  rejects \<^verbatim>\<open>None\<close>.
\<close>

definition page_content :: "lib \<Rightarrow> cell \<Rightarrow> string option" where
  "page_content l v =
     (case v of
        Str s \<Rightarrow> Some s
      | Num q \<Rightarrow> Some (str_float l q)
      | NaN \<Rightarrow> Some ''nan''
      | PyNone \<Rightarrow> None)"

text \<open>
  The new value of the column \<^verbatim>\<open>doc_chunks\<close> is kept beside the row, as a pair, until
  the column is dropped.
\<close>

definition doc_chunks :: "lib \<Rightarrow> text_splitter \<Rightarrow> row \<Rightarrow> py_error + row \<times> string list" where
  "doc_chunks l splitter r =
     (case page_content l (cell_of r ''content'') of
        Some s \<Rightarrow> Inr (r, split_documents l splitter s)
      | None \<Rightarrow> Inl ValidationError)"

text \<open>
  Line 613, \<^verbatim>\<open>df.explode('doc_chunks', ignore_index=True)\<close>: one row for each element
  of the list, and one row holding \<^verbatim>\<open>NaN\<close> for an empty list.
\<close>

definition explode :: "(row \<times> string list) list \<Rightarrow> (row \<times> string option) list" where
  "explode rcs =
     concat (map (\<lambda>(r, cs). if cs = [] then [(r, None)] else map (\<lambda>c. (r, Some c)) cs) rcs)"

text \<open>Line 614 for one row: \<^verbatim>\<open>x.page_content\<close> of a \<^verbatim>\<open>NaN\<close> is an \<^verbatim>\<open>AttributeError\<close>.\<close>

definition chunk_row :: "lib \<Rightarrow> row \<times> string option \<Rightarrow> py_error + row" where
  "chunk_row l rc =
     (case snd rc of
        None \<Rightarrow> Inl AttributeError
      | Some c \<Rightarrow> Inr (set_cell ''content'' (Str (chunk_content l c)) (fst rc)))"

text \<open>Lines 609 to 622, for the splitter that line 608 constructs.\<close>

definition split_frame :: "lib \<Rightarrow> text_splitter \<Rightarrow> frame \<Rightarrow> py_error + frame" where
  "split_frame l splitter df =
     (if ''content'' \<notin> set (columns df) then Inl KeyError
      else
        ebind (emap (doc_chunks l splitter) (rows df)) (\<lambda>chunked.
          let with_chunks = (if ''doc_chunks'' \<in> set (columns df) then columns df
                             else columns df @ [''doc_chunks'']);
              kept = filter (\<lambda>(r, cs). length cs > 0) chunked;
              exploded = explode kept
          in ebind (emap (chunk_row l) exploded) (\<lambda>rs.
             ebind (drop_column ''doc_chunks'' \<lparr>columns = with_chunks, rows = rs\<rparr>) (\<lambda>df2.
             drop_column ''header'' df2))))"

definition concat_sources ::
    "frame list \<Rightarrow> frame list \<Rightarrow> frame list \<Rightarrow> frame list \<Rightarrow> frame list \<Rightarrow> frame list
       \<Rightarrow> frame list \<Rightarrow> py_error + frame" where
  "concat_sources md_dfs rst_dfs slack_dfs stackoverflow_dfs code_dfs issues_dfs reg_dfs =
     ebind (concat_frames md_dfs) (\<lambda>md_df.
     ebind (concat_frames rst_dfs) (\<lambda>rst_df.
     ebind (concat_frames slack_dfs) (\<lambda>slack_df.
     ebind (concat_frames stackoverflow_dfs) (\<lambda>stackoverflow_df.
     ebind (concat_frames code_dfs) (\<lambda>code_df.
     ebind (concat_frames issues_dfs) (\<lambda>issues_df.
     ebind (concat_frames reg_dfs) (\<lambda>reg_df.
       concat_frames
         [md_df, rst_df, slack_df, reg_df, code_df, stackoverflow_df, issues_df])))))))"

definition split_data ::
    "lib \<Rightarrow> frame list \<Rightarrow> frame list \<Rightarrow> frame list \<Rightarrow> frame list \<Rightarrow> frame list
       \<Rightarrow> frame list \<Rightarrow> frame list \<Rightarrow> py_error + frame" where
  "split_data l md_dfs rst_dfs slack_dfs stackoverflow_dfs code_dfs issues_dfs reg_dfs =
     ebind (concat_sources md_dfs rst_dfs slack_dfs stackoverflow_dfs code_dfs issues_dfs
              reg_dfs)
       (split_frame l RecursiveCharacterTextSplitter)"

subsection \<open>Import\<close>

record import_args =
  data :: frame
  class_name :: string
  uuid_column :: string
  batch_size :: nat
  error_threshold :: nat

definition import_data :: "lib \<Rightarrow> frame \<Rightarrow> string \<Rightarrow> py_error + import_args" where
  "import_data l md_docs cls =
     ebind (concat_frames [md_docs]) (\<lambda>df.
       Inr \<lparr>data = assign_column ''uuid'' (\<lambda>i x. Str (generate_uuid5 l (OfDict x))) df,
            class_name = cls, uuid_column = ''uuid'', batch_size = 1000,
            error_threshold = 12\<rparr>)"

subsection \<open>Extract tasks\<close>

text \<open>
  The files under \<^verbatim>\<open>include/data\<close> are the disk: a map from paths to the frames that
  \<^verbatim>\<open>pd.read_parquet\<close> returns for them.
\<close>

type_synonym disk = "string \<rightharpoonup> frame"

definition read_parquet :: "disk \<Rightarrow> string \<Rightarrow> py_error + frame" where
  "read_parquet d path = (case d path of None \<Rightarrow> Inl FileNotFoundError | Some df \<Rightarrow> Inr df)"

record doc_source =
  doc_dir :: string
  repo_base :: string

record slack_source =
  channel_name :: string
  channel_id :: string
  team_id :: string
  team_name :: string
  slack_api_conn_id :: string

record http_source =
  name :: string
  base_url :: string
  count_field :: string


definition issues_docs_sources :: "doc_source list" where
  "issues_docs_sources = [\<lparr>doc_dir = ''issues'', repo_base = ''apache/airflow''\<rparr>]"

definition slack_channel_sources :: "slack_source list" where
  "slack_channel_sources =
     [\<lparr>channel_name = ''troubleshooting'', channel_id = ''CCQ7EGB1P'',
       team_id = ''TCQ18L22Z'', team_name = ''Airflow Slack Community'',
       slack_api_conn_id = ''TBD''\<rparr>]"










subsection \<open>The slack extract\<close>

text \<open>\<^verbatim>\<open>sep.join(xs)\<close>\<close>

fun join :: "string \<Rightarrow> string list \<Rightarrow> string" where
  "join sep [] = []"
| "join sep [x] = x"
| "join sep (x # y # ys) = x @ sep @ join sep (y # ys)"

text \<open>\<^verbatim>\<open>str\<close> of a cell inside \<^verbatim>\<open>format\<close>.\<close>

definition str_cell :: "lib \<Rightarrow> cell \<Rightarrow> string" where
  "str_cell l v =
     (case v of Str s \<Rightarrow> s | Num q \<Rightarrow> str_float l q | NaN \<Rightarrow> ''nan'' | PyNone \<Rightarrow> ''None'')"

definition reply_md_format :: "string \<Rightarrow> string \<Rightarrow> string \<Rightarrow> string" where
  "reply_md_format ts_str user_str text_str =
     ''### ['' @ ts_str @ ''] <@'' @ user_str @ ''>'' @ [newline, newline] @ text_str"

definition message_md_format :: "string \<Rightarrow> string \<Rightarrow> string \<Rightarrow> string" where
  "message_md_format team chan content =
     ''# slack: '' @ team @ [newline, newline] @ ''## '' @ chan @ [newline, newline] @ content"

definition link_format :: "string \<Rightarrow> string \<Rightarrow> string \<Rightarrow> string" where
  "link_format team chan ts_str =
     ''https://app.slack.com/client/'' @ team @ ''/'' @ chan @ ''/p'' @ ts_str"

definition slack_columns :: "string list" where
  "slack_columns = [''user'', ''text'', ''ts'', ''thread_ts'', ''client_msg_id'', ''type'']"

text \<open>Lines 440 to 442: a missing column is a \<^verbatim>\<open>KeyError\<close>.\<close>

definition select_slack_columns :: "frame \<Rightarrow> py_error + row list" where
  "select_slack_columns df =
     (if set slack_columns \<subseteq> set (columns df)
      then Inr (drop_duplicate_rows (map (align slack_columns) (rows df)))
      else Inl KeyError)"

text \<open>
  Lines 444 and 445, \<^verbatim>\<open>df[c] = df[c].astype(float)\<close>: a number stays, a missing value
  becomes \<^verbatim>\<open>NaN\<close>, a string is converted or raises \<^verbatim>\<open>ValueError\<close>.
\<close>

definition to_float :: "lib \<Rightarrow> cell \<Rightarrow> py_error + cell" where
  "to_float l v =
     (case v of
        Num q \<Rightarrow> Inr (Num q)
      | NaN \<Rightarrow> Inr NaN
      | PyNone \<Rightarrow> Inr NaN
      | Str s \<Rightarrow>
          (case parse_float l s of
             None \<Rightarrow> Inl ValueError
           | Some None \<Rightarrow> Inr NaN
           | Some (Some q) \<Rightarrow> Inr (Num q)))"

definition astype_float :: "lib \<Rightarrow> string \<Rightarrow> row list \<Rightarrow> py_error + row list" where
  "astype_float l c rs =
     emap (\<lambda>r. ebind (to_float l (cell_of r c)) (\<lambda>v. Inr (set_cell c v r))) rs"

text \<open>Line 447: \<^verbatim>\<open>df['thread_ts'].fillna(value=df.ts, inplace=True)\<close>\<close>

definition fillna_thread_ts :: "row \<Rightarrow> row" where
  "fillna_thread_ts r =
     (if isna (cell_of r ''thread_ts'') then set_cell ''thread_ts'' (cell_of r ''ts'') r
      else r)"

text \<open>
  Lines 449 to 451 for one row: \<^verbatim>\<open>datetime.fromtimestamp\<close> raises \<^verbatim>\<open>ValueError\<close> for
  \<^verbatim>\<open>NaN\<close>, and for a timestamp out of its range the exception the library chooses.
\<close>

definition reply_of :: "lib \<Rightarrow> row \<Rightarrow> py_error + reply" where
  "reply_of l r =
     (case cell_of r ''ts'' of
        Num t \<Rightarrow>
          (case fromtimestamp l t of
             Inl e \<Rightarrow> Inl e
           | Inr stamp \<Rightarrow>
               Inr \<lparr>reply_ts = t,
                    reply_thread_ts =
                      (case cell_of r ''thread_ts'' of Num k \<Rightarrow> Some k | _ \<Rightarrow> None),
                    reply_content = reply_md_format stamp (str_cell l (cell_of r ''user''))
                                      (str_cell l (cell_of r ''text''))\<rparr>)
      | _ \<Rightarrow> Inl ValueError)"

text \<open>
  Line 453, \<^verbatim>\<open>groupby('thread_ts').agg({'content': '\n'.join}).reset_index()\<close>: the
  groups are the distinct keys in ascending order, rows without a key are left out, and
  the rows of a group keep the order they have in the frame.
\<close>

definition thread_keys :: "reply list \<Rightarrow> rat list" where
  "thread_keys rs =
     sort (remdups (concat (map (\<lambda>r. case reply_thread_ts r of None \<Rightarrow> [] | Some k \<Rightarrow> [k]) rs)))"

definition thread_members :: "rat \<Rightarrow> reply list \<Rightarrow> reply list" where
  "thread_members k rs = filter (\<lambda>r. reply_thread_ts r = Some k) rs"

definition groupby_thread_ts :: "reply list \<Rightarrow> (rat \<times> string) list" where
  "groupby_thread_ts rs =
     map (\<lambda>k. (k, join [newline] (map reply_content (thread_members k rs)))) (thread_keys rs)"

text \<open>Lines 455 to 466 for one group.\<close>

definition thread_record :: "lib \<Rightarrow> slack_source \<Rightarrow> rat \<times> string \<Rightarrow> row" where
  "thread_record l source kc =
     (let content = message_md_format (team_name source) (channel_name source) (snd kc);
          docLink = link_format (team_id source) (channel_id source)
                      (replace_char CHR ''.'' [] (str_float l (fst kc)))
      in [(''docSource'', Str (channel_name source)),
          (''sha'', Str (generate_uuid5 l (OfStr content))),
          (''content'', Str content),
          (''docLink'', Str docLink)])"

text \<open>Lines 440 to 445: the messages, with both timestamps as floats.\<close>

definition slack_messages :: "lib \<Rightarrow> frame \<Rightarrow> py_error + row list" where
  "slack_messages l df =
     ebind (select_slack_columns df) (\<lambda>rs.
     ebind (astype_float l ''thread_ts'' rs) (\<lambda>rs.
     astype_float l ''ts'' rs))"

text \<open>
  Lines 447 to 451. On a frame without rows \<^verbatim>\<open>df.apply(..., axis=1)\<close> gives an empty
  frame, and assigning it to the column \<^verbatim>\<open>content\<close> raises \<^verbatim>\<open>ValueError\<close>.
\<close>

definition slack_replies :: "lib \<Rightarrow> frame \<Rightarrow> py_error + reply list" where
  "slack_replies l df =
     ebind (slack_messages l df) (\<lambda>rs.
       if rs = [] then Inl ValueError
       else emap (reply_of l) (map fillna_thread_ts rs))"

definition extract_slack :: "lib \<Rightarrow> disk \<Rightarrow> slack_source \<Rightarrow> py_error + frame" where
  "extract_slack l d source =
     ebind (read_parquet d ''include/data/slack/troubleshooting.parquet'') (\<lambda>df.
     ebind (slack_replies l df) (\<lambda>replies.
       Inr \<lparr>columns = [''docSource'', ''sha'', ''content'', ''docLink''],
            rows = map (thread_record l source)
                     (groupby_thread_ts (sort_values l replies))\<rparr>))"

subsection \<open>Notions used in the statements\<close>

text \<open>The chunks line 609 computes for a row: those of the text of its content.\<close>

definition row_chunks :: "lib \<Rightarrow> text_splitter \<Rightarrow> row \<Rightarrow> string list" where
  "row_chunks l sp r =
     (case page_content l (cell_of r ''content'') of
        Some s \<Rightarrow> split_documents l sp s
      | None \<Rightarrow> [])"

text \<open>Every row paired with each of its chunks, in order.\<close>

definition chunk_pairs :: "(row \<times> string list) list \<Rightarrow> (row \<times> string) list" where
  "chunk_pairs rcs = concat (map (\<lambda>(r, cs). map (Pair r) cs) rcs)"

text \<open>The record made from a row and one of its chunks, once both columns are dropped.\<close>

definition finish_row :: "lib \<Rightarrow> row \<times> string \<Rightarrow> row" where
  "finish_row l rc =
     drop_cell ''header'' (drop_cell ''doc_chunks''
       (set_cell ''content'' (Str (chunk_content l (snd rc))) (fst rc)))"

text \<open>Lines 601 to 605.\<close>

definition headers_to_split_on :: "(string \<times> string) list" where
  "headers_to_split_on = [(''#'', ''Header 1''), (''##'', ''Header 2'')]"

text \<open>
  The chunking step in the words of the specification, "recursive text splitting by header
  level": \<^verbatim>\<open>split_data\<close> with the markdown header splitter of line 607 in the place of
  the splitter of line 608. It is compared with \<open>split_data\<close> below.
\<close>

definition split_data_by_header ::
    "lib \<Rightarrow> frame list \<Rightarrow> frame list \<Rightarrow> frame list \<Rightarrow> frame list \<Rightarrow> frame list
       \<Rightarrow> frame list \<Rightarrow> frame list \<Rightarrow> py_error + frame" where
  "split_data_by_header l md_dfs rst_dfs slack_dfs stackoverflow_dfs code_dfs issues_dfs reg_dfs =
     ebind (concat_sources md_dfs rst_dfs slack_dfs stackoverflow_dfs code_dfs issues_dfs
              reg_dfs)
       (split_frame l (MarkdownHeaderTextSplitter headers_to_split_on))"

text \<open>
  The record that \<^verbatim>\<open>import_data\<close> sees at position \<open>i\<close> of a frame: the value of the
  row in every column of the frame.
\<close>

definition record_at :: "frame \<Rightarrow> nat \<Rightarrow> row" where
  "record_at df i = align (union_columns [df]) (rows df ! i)"

subsection \<open>Sample inputs\<close>


text \<open>
  Sample behaviour of the third-party functions. The character splitter keeps a short
  document whole and gives no chunk for an empty one; the header splitter starts a new
  chunk at every line that begins with \<^verbatim>\<open>#\<close>; \<^verbatim>\<open>html2text\<close> ends its output with two
  newlines; sorting is insertion sort.
\<close>

fun header_sections :: "string \<Rightarrow> string list" where
  "header_sections [] = []"
| "header_sections (c # cs) =
     (case header_sections cs of
        [] \<Rightarrow> [[c]]
      | sec # secs \<Rightarrow>
          if c = newline \<and> starts_with ''#'' sec then [] # sec # secs
          else (c # sec) # secs)"

definition sample_str_float :: "rat \<Rightarrow> string" where
  "sample_str_float q = (if q = 1 then ''1.0'' else if q = 2 then ''2.0'' else ''3.0'')"

definition sample_str_row :: "row \<Rightarrow> string" where
  "sample_str_row r =
     concat (map (\<lambda>(k, v). k @ ''='' @ (case v of Str s \<Rightarrow> s | _ \<Rightarrow> ''nan'') @ '';'') r)"

definition sample_uuid5 :: "uuid_input \<Rightarrow> string" where
  "sample_uuid5 x =
     (case x of
        OfStr s \<Rightarrow> ''id:'' @ s
      | OfDict r \<Rightarrow> ''id:'' @ sample_str_row r
      | OfSeries i r \<Rightarrow> ''id:'' @ sample_str_row r @ ''Name'')"

definition sample_lib :: lib where
  "sample_lib =
     \<lparr>split_documents = (\<lambda>sp s. case sp of
          MarkdownHeaderTextSplitter hs \<Rightarrow> header_sections s
        | RecursiveCharacterTextSplitter \<Rightarrow> (if s = [] then [] else [s])),
      html2text = (\<lambda>s. s @ [newline, newline]),
      generate_uuid5 = sample_uuid5,
      parse_float = (\<lambda>s. map_option Some (map_of [(''1.0'', 1), (''2.0'', 2), (''3.0'', 3)] s)),
      str_float = sample_str_float,
      fromtimestamp = (\<lambda>t. Inr (sample_str_float t)),
      sort_values = sort_key reply_ts\<rparr>"

definition doc_row :: "string \<Rightarrow> string \<Rightarrow> string \<Rightarrow> string \<Rightarrow> row" where
  "doc_row src sha link content =
     [(''docSource'', Str src), (''sha'', Str sha), (''docLink'', Str link),
      (''content'', Str content)]"

definition doc_columns :: "string list" where
  "doc_columns = [''docSource'', ''sha'', ''docLink'', ''content'']"

text \<open>A markdown frame with one document of two sections, and one empty document.\<close>

definition sample_md :: frame where
  "sample_md =
     \<lparr>columns = doc_columns,
      rows = [doc_row ''learn'' ''s1'' ''u1''
                (''# A'' @ [newline] @ ''x'' @ [backslash] @ ''y'' @ [newline] @ ''# B''),
              doc_row ''learn'' ''s2'' ''u2'' []]\<rparr>"

text \<open>A code frame: it has the column \<^verbatim>\<open>header\<close>.\<close>

definition sample_code :: frame where
  "sample_code =
     \<lparr>columns = doc_columns @ [''header''],
      rows = [doc_row ''code-samples'' ''s3'' ''u3'' ''pass'' @ [(''header'', Str ''python'')]]\<rparr>"

text \<open>A frame without rows, and one without the column \<^verbatim>\<open>content\<close>.\<close>

definition no_docs :: frame where
  "no_docs = \<lparr>columns = doc_columns, rows = []\<rparr>"

definition linked_docs :: frame where
  "linked_docs =
     \<lparr>columns = [''docSource'', ''sha'', ''docLink''],
      rows = [[(''docSource'', Str ''registry''), (''sha'', Str ''s4''),
               (''docLink'', Str ''u4'')]]\<rparr>"

text \<open>
  A function sorts the rows by \<^verbatim>\<open>ts\<close> when its result is a permutation of its argument
  in ascending order of \<^verbatim>\<open>ts\<close>.
\<close>

definition sorts_by_ts :: "(reply list \<Rightarrow> reply list) \<Rightarrow> bool" where
  "sorts_by_ts f = (\<forall>xs. mset (f xs) = mset xs \<and> sorted (map reply_ts (f xs)))"

text \<open>
  A slack snapshot: a message that starts a thread, a reply to it that comes later in
  time but first in the file, the message once more, and a message with a thread of its
  own.
\<close>

definition slack_row :: "string \<Rightarrow> string \<Rightarrow> string \<Rightarrow> cell \<Rightarrow> row" where
  "slack_row u t time thread =
     [(''user'', Str u), (''text'', Str t), (''ts'', Str time), (''thread_ts'', thread),
      (''client_msg_id'', PyNone), (''type'', Str ''message'')]"

definition sample_slack :: frame where
  "sample_slack =
     \<lparr>columns = slack_columns,
      rows = [slack_row ''U2'' ''try this'' ''2.0'' (Str ''1.0''),
              slack_row ''U1'' ''help'' ''1.0'' PyNone,
              slack_row ''U1'' ''help'' ''1.0'' PyNone,
              slack_row ''U3'' ''other'' ''3.0'' (Str ''3.0'')]\<rparr>"

definition sample_disk :: disk where
  "sample_disk =
     map_of [(''include/data/slack/troubleshooting.parquet'', sample_slack),
             (''include/data/astronomer/docs/learn.parquet'', sample_md),
             (''include/data/stackoverflow_base.parquet'', sample_code),
             (''include/data/registry.parquet'', no_docs)]"

text \<open>
  What \<^verbatim>\<open>split_data\<close> makes of the sample markdown frame, the frame without content as
  registry frame and the sample code frame: the empty document is gone, and the missing
  content has become the text \<^verbatim>\<open>nan\<close>.
\<close>

definition sample_chunks :: frame where
  "sample_chunks =
     \<lparr>columns = doc_columns,
      rows = [doc_row ''learn'' ''s1'' ''u1'' ''# A xy # B  '',
              doc_row ''registry'' ''s4'' ''u4'' ''nan  '',
              doc_row ''code-samples'' ''s3'' ''u3'' ''pass  '']\<rparr>"

text \<open>A frame that holds the second document of the sample markdown frame only.\<close>

definition empty_doc :: frame where
  "empty_doc = \<lparr>columns = doc_columns, rows = [doc_row ''learn'' ''s2'' ''u2'' []]\<rparr>"

text \<open>
  What \<^verbatim>\<open>extract_slack\<close> makes of the sample snapshot: one record for each of the two
  threads, the first with its two messages in the order of their timestamps.
\<close>

definition sample_thread_1 :: string where
  "sample_thread_1 =
     ''# slack: Airflow Slack Community'' @ [newline, newline] @ ''## troubleshooting''
     @ [newline, newline] @ ''### [1.0] <@U1>'' @ [newline, newline] @ ''help''
     @ [newline] @ ''### [2.0] <@U2>'' @ [newline, newline] @ ''try this''"

definition sample_thread_3 :: string where
  "sample_thread_3 =
     ''# slack: Airflow Slack Community'' @ [newline, newline] @ ''## troubleshooting''
     @ [newline, newline] @ ''### [3.0] <@U3>'' @ [newline, newline] @ ''other''"

definition sample_threads :: frame where
  "sample_threads =
     \<lparr>columns = [''docSource'', ''sha'', ''content'', ''docLink''],
      rows = [[(''docSource'', Str ''troubleshooting''),
               (''sha'', Str (''id:'' @ sample_thread_1)),
               (''content'', Str sample_thread_1),
               (''docLink'', Str ''https://app.slack.com/client/TCQ18L22Z/CCQ7EGB1P/p10'')],
              [(''docSource'', Str ''troubleshooting''),
               (''sha'', Str (''id:'' @ sample_thread_3)),
               (''content'', Str sample_thread_3),
               (''docLink'', Str ''https://app.slack.com/client/TCQ18L22Z/CCQ7EGB1P/p30'')]]\<rparr>"

section \<open>Basic facts\<close>

lemma ebind_Inr: "ebind m f = Inr y \<longleftrightarrow> (\<exists>x. m = Inr x \<and> f x = Inr y)"
  by (cases m) (simp_all add: ebind_def)

lemma emap_Inr: "emap f xs = Inr ys \<longleftrightarrow> list_all2 (\<lambda>x y. f x = Inr y) xs ys"
proof (induction xs arbitrary: ys)
  case Nil
  then show ?case by auto
next
  case (Cons x xs)
  then show ?case by (cases ys) (auto simp: ebind_Inr list_all2_Cons1)
qed

lemma set_drop_duplicates: "set (drop_duplicates xs) = set xs"
  by (induction xs rule: drop_duplicates.induct) auto

lemma distinct_drop_duplicates: "distinct (drop_duplicates xs)"
  by (induction xs rule: drop_duplicates.induct) (auto simp: set_drop_duplicates)

lemma fields_align: "row_fields (align cols r) = cols"
  by (simp add: row_fields_def align_def comp_def)

lemma fields_drop_cell: "row_fields (drop_cell c r) = filter (\<lambda>k. k \<noteq> c) (row_fields r)"
  by (induction r) (auto simp: row_fields_def drop_cell_def)

lemma fields_set_cell:
  "row_fields (set_cell c v r) = (if c \<in> set (row_fields r) then row_fields r else row_fields r @ [c])"
  by (induction r) (auto simp: row_fields_def set_cell_def)

lemma cell_of_drop_cell: "k \<noteq> c \<Longrightarrow> cell_of (drop_cell c r) k = cell_of r k"
  by (induction r) (auto simp: cell_of_def drop_cell_def)

lemma map_of_set_existing:
  "c \<in> fst ` set r \<Longrightarrow> map_of (map (\<lambda>(k, x). if k = c then (k, v) else (k, x)) r) c = Some v"
  by (induction r) auto

lemma cell_of_set_cell: "cell_of (set_cell c v r) c = v"
proof (cases "c \<in> set (row_fields r)")
  case True
  then show ?thesis
    by (simp add: cell_of_def set_cell_def row_fields_def map_of_set_existing)
next
  case False
  then have "map_of r c = None" by (simp add: row_fields_def map_of_eq_None_iff)
  with False show ?thesis
    by (simp add: cell_of_def set_cell_def map_of_append map_add_def)
qed

lemma replace_newline: "newline \<notin> set (replace_char newline '' '' s)"
  by (auto simp: replace_char_def)

lemma replace_backslash: "backslash \<notin> set (replace_char backslash [] s)"
  by (auto simp: replace_char_def)

lemma replace_subset: "set (replace_char old [] s) \<subseteq> set s"
  by (auto simp: replace_char_def split: if_splits)

lemma chunk_content_clean:
  "newline \<notin> set (chunk_content l c) \<and> backslash \<notin> set (chunk_content l c)"
  using replace_subset [of backslash "replace_char newline '' '' (html2text l c)"]
        replace_newline [of "html2text l c"]
        replace_backslash [of "replace_char newline '' '' (html2text l c)"]
  by (auto simp: chunk_content_def)

lemma emap_append:
  "emap f (xs @ ys) = ebind (emap f xs) (\<lambda>a. ebind (emap f ys) (\<lambda>b. Inr (a @ b)))"
  by (induction xs) (auto simp: ebind_def split: sum.splits)

lemma emap_total: "(\<And>x. x \<in> set xs \<Longrightarrow> f x = Inr (g x)) \<Longrightarrow> emap f xs = Inr (map g xs)"
  by (induction xs) (auto simp: ebind_def)

lemma emap_doc_chunks:
  assumes "emap (doc_chunks l sp) rs = Inr chunked"
  shows "chunked = map (\<lambda>r. (r, row_chunks l sp r)) rs"
    and "\<forall>r \<in> set rs. \<exists>s. page_content l (cell_of r ''content'') = Some s"
  using assms
proof (induction rs arbitrary: chunked)
  case Nil
  { case 1 then show ?case by simp }
  { case 2 then show ?case by simp }
next
  case (Cons r rs)
  { case 1
    then show ?case using Cons.IH(1)
      by (auto simp: ebind_Inr doc_chunks_def row_chunks_def split: option.splits) }
  { case 2
    then show ?case using Cons.IH(2)
      by (auto simp: ebind_Inr doc_chunks_def split: option.splits) }
qed

lemma emap_chunk_row:
  "emap (chunk_row l) (explode (filter (\<lambda>(r, cs). cs \<noteq> []) chunked)) =
     Inr (map (\<lambda>rc. set_cell ''content'' (Str (chunk_content l (snd rc))) (fst rc))
            (chunk_pairs chunked))"
proof (induction chunked)
  case Nil
  then show ?case by (simp add: explode_def chunk_pairs_def)
next
  case (Cons a chunked)
  obtain r cs where a: "a = (r, cs)" by (cases a)
  have one: "emap (chunk_row l) (map (\<lambda>c. (r, Some c)) cs) =
               Inr (map (\<lambda>rc. set_cell ''content'' (Str (chunk_content l (snd rc))) (fst rc))
                      (map (Pair r) cs))"
    by (induction cs) (auto simp: ebind_def chunk_row_def)
  show ?case
  proof (cases "cs = []")
    case True
    with Cons a show ?thesis by (simp add: explode_def chunk_pairs_def)
  next
    case False
    have "explode (filter (\<lambda>(r, cs). cs \<noteq> []) (a # chunked)) =
            map (\<lambda>c. (r, Some c)) cs @ explode (filter (\<lambda>(r, cs). cs \<noteq> []) chunked)"
      using False a by (simp add: explode_def)
    moreover have "chunk_pairs (a # chunked) = map (Pair r) cs @ chunk_pairs chunked"
      using a by (simp add: chunk_pairs_def)
    ultimately show ?thesis
      using Cons one by (simp add: emap_append ebind_def)
  qed
qed

lemma split_frame_Inr:
  assumes "split_frame l sp df = Inr out"
  shows "''content'' \<in> set (columns df)"
    and "''header'' \<in> set (columns df)"
    and "\<forall>r \<in> set (rows df). \<exists>s. page_content l (cell_of r ''content'') = Some s"
    and "columns out =
           filter (\<lambda>c. c \<noteq> ''header'') (filter (\<lambda>c. c \<noteq> ''doc_chunks'') (columns df))"
    and "rows out =
           map (finish_row l) (chunk_pairs (map (\<lambda>r. (r, row_chunks l sp r)) (rows df)))"
proof -
  from assms show c: "''content'' \<in> set (columns df)"
    by (auto simp: split_frame_def split: if_splits)
  with assms obtain chunked where
    ch: "emap (doc_chunks l sp) (rows df) = Inr chunked" and
    rest: "ebind (drop_column ''doc_chunks''
             \<lparr>columns = (if ''doc_chunks'' \<in> set (columns df) then columns df
                          else columns df @ [''doc_chunks'']),
               rows = map (\<lambda>rc. set_cell ''content'' (Str (chunk_content l (snd rc))) (fst rc))
                        (chunk_pairs chunked)\<rparr>) (drop_column ''header'') = Inr out"
    by (auto simp: split_frame_def ebind_Inr Let_def emap_chunk_row)
  from emap_doc_chunks [OF ch]
  have chunked: "chunked = map (\<lambda>r. (r, row_chunks l sp r)) (rows df)"
    and strs: "\<forall>r \<in> set (rows df). \<exists>s. page_content l (cell_of r ''content'') = Some s" by auto
  from strs show "\<forall>r \<in> set (rows df). \<exists>s. page_content l (cell_of r ''content'') = Some s" .
  from rest show "''header'' \<in> set (columns df)"
    by (auto simp: ebind_Inr drop_column_def split: if_splits)
  from rest show "columns out =
           filter (\<lambda>c. c \<noteq> ''header'') (filter (\<lambda>c. c \<noteq> ''doc_chunks'') (columns df))"
    by (auto simp: ebind_Inr drop_column_def split: if_splits)
  from rest show "rows out =
           map (finish_row l) (chunk_pairs (map (\<lambda>r. (r, row_chunks l sp r)) (rows df)))"
    unfolding chunked
    by (auto simp: ebind_Inr drop_column_def finish_row_def split: if_splits)
qed

lemma set_union_columns: "set (union_columns fs) = (\<Union>f \<in> set fs. set (columns f))"
  by (simp add: union_columns_def set_drop_duplicates)

lemma concat_frames_Inr:
  assumes "concat_frames fs = Inr df"
  shows "columns df = union_columns fs"
    and "\<forall>r \<in> set (rows df). row_fields r = columns df"
  using assms by (auto simp: concat_frames_def fields_align split: if_splits)

lemma concat_sources_Inr:
  assumes "concat_sources md rst slack so code issues reg = Inr df"
  shows "set (columns df) =
           (\<Union>f \<in> set (md @ rst @ slack @ so @ code @ issues @ reg). set (columns f))"
    and "distinct (columns df)"
    and "\<forall>r \<in> set (rows df). row_fields r = columns df"
proof -
  from assms obtain a b c d e f g where
    parts: "concat_frames md = Inr a" "concat_frames rst = Inr b" "concat_frames slack = Inr c"
      "concat_frames so = Inr d" "concat_frames code = Inr e" "concat_frames issues = Inr f"
      "concat_frames reg = Inr g"
    and whole: "concat_frames [a, b, c, g, e, d, f] = Inr df"
    by (auto simp: concat_sources_def ebind_Inr)
  from whole have cols: "columns df = union_columns [a, b, c, g, e, d, f]"
    by (rule concat_frames_Inr)
  show "distinct (columns df)"
    unfolding cols union_columns_def by (rule distinct_drop_duplicates)
  from whole show "\<forall>r \<in> set (rows df). row_fields r = columns df"
    by (rule concat_frames_Inr)
  have "set (columns df) = set (columns a) \<union> set (columns b) \<union> set (columns c) \<union>
          set (columns g) \<union> set (columns e) \<union> set (columns d) \<union> set (columns f)"
    unfolding cols set_union_columns by auto
  also have "\<dots> = (\<Union>f \<in> set (md @ rst @ slack @ so @ code @ issues @ reg). set (columns f))"
    using parts by (auto simp: concat_frames_Inr(1) set_union_columns)
  finally show "set (columns df) =
           (\<Union>f \<in> set (md @ rst @ slack @ so @ code @ issues @ reg). set (columns f))" .
qed

section \<open>Properties of the branch tasks\<close>



text \<open>
  C8. \<^verbatim>\<open>recreate_schema_branch\<close> selects \<^verbatim>\<open>check_object_count\<close> when the schema exists
  and \<^verbatim>\<open>create_schema\<close> when it does not; whenever the schema exists, the selected task
  ids do not include \<^verbatim>\<open>create_schema\<close>.
\<close>

theorem recreate_schema_branch_conditional:
  "(schema_exists \<longrightarrow> recreate_schema_branch schema_exists = Some [''check_object_count''])
   \<and> (\<not> schema_exists \<longrightarrow> recreate_schema_branch schema_exists = Some [''create_schema''])
   \<and> (\<forall>ids. schema_exists \<longrightarrow> recreate_schema_branch schema_exists = Some ids
          \<longrightarrow> ''create_schema'' \<notin> set ids)"
  by (simp add: recreate_schema_branch_def)

theorem recreate_schema_branch_conditional_witness:
  "recreate_schema_branch True = Some [''check_object_count'']
   \<and> recreate_schema_branch False = Some [''create_schema'']
   \<and> ''create_schema'' \<notin> set [''check_object_count'']"
  using recreate_schema_branch_conditional [of True]
        recreate_schema_branch_conditional [of False]
  by simp



text \<open>
  C3, as stated, fails: an exception of the query with status code 500 is caught, the
  handler leaves \<^verbatim>\<open>response\<close> unbound, and the task fails with \<^verbatim>\<open>UnboundLocalError\<close>
  instead of returning the extract task ids.
\<close>

theorem check_object_count_other_exception_counterexample:
  "check_object_count weaviate_doc_count ''Docs''
     (Raised \<lparr>status_code = Some 500, message = Some ''Internal Server Error''\<rparr>)
     = Inl UnboundLocalError"
  by (simp add: check_object_count_def except_handler_def ebind_def)

text \<open>
  C3, amended. An exception of the query whose status code is 422 and whose message
  contains \<^verbatim>\<open>no graphql provider present\<close> is caught and treated as "index not yet
  created": the task returns the list of the extract task ids.
\<close>

theorem check_object_count_index_missing:
  assumes "status_code e = Some 422" and "message e = Some m"
    and "contains ''no graphql provider present'' m"
  shows "check_object_count doc_count cls (Raised e) = Inr (Some extract_task_ids)"
  using assms by (simp add: check_object_count_def except_handler_def ebind_def)

theorem check_object_count_index_missing_witness:
  "contains ''no graphql provider present'' ''422: no graphql provider present, no schema''
   \<and> check_object_count weaviate_doc_count ''Docs''
       (Raised \<lparr>status_code = Some 422,
                message = Some ''422: no graphql provider present, no schema''\<rparr>)
     = Inr (Some extract_task_ids)"
proof -
  have c: "contains ''no graphql provider present''
             ''422: no graphql provider present, no schema''"
    by simp
  show ?thesis
    using c check_object_count_index_missing
              [of "\<lparr>status_code = Some 422,
                    message = Some ''422: no graphql provider present, no schema''\<rparr>",
               OF _ _ c]
    by simp
qed

section \<open>Properties of splitting and import\<close>

lemma replace_char_newline_map:
  "replace_char newline '' '' s = map (\<lambda>c. if c = newline then CHR '' '' else c) s"
  by (induction s) (auto simp: replace_char_def)

lemma replace_char_backslash_filter:
  "replace_char backslash [] s = filter (\<lambda>c. c \<noteq> backslash) s"
  by (induction s) (auto simp: replace_char_def)

lemma chunk_content_eq:
  "chunk_content l c =
     filter (\<lambda>c. c \<noteq> backslash) (map (\<lambda>c. if c = newline then CHR '' '' else c) (html2text l c))"
  by (simp add: chunk_content_def replace_char_newline_map replace_char_backslash_filter)

lemma cell_of_finish_row:
  "cell_of (finish_row l rc) ''content'' = Str (chunk_content l (snd rc))"
  by (simp add: finish_row_def cell_of_drop_cell cell_of_set_cell)

lemma row_fields_finish_row:
  "''content'' \<in> set (row_fields (fst rc)) \<Longrightarrow>
   row_fields (finish_row l rc) =
     filter (\<lambda>c. c \<noteq> ''header'') (filter (\<lambda>c. c \<noteq> ''doc_chunks'') (row_fields (fst rc)))"
  by (simp add: finish_row_def fields_drop_cell fields_set_cell)

lemma chunk_pairs_mem:
  "rc \<in> set (chunk_pairs (map (\<lambda>r. (r, f r)) rs)) \<longleftrightarrow> fst rc \<in> set rs \<and> snd rc \<in> set (f (fst rc))"
  by (cases rc) (auto simp: chunk_pairs_def)

lemma split_data_Inr:
  assumes "split_data l md rst slack so code issues reg = Inr out"
  obtains df where "concat_sources md rst slack so code issues reg = Inr df"
    and "split_frame l RecursiveCharacterTextSplitter df = Inr out"
  using assms by (auto simp: split_data_def ebind_Inr)



text \<open>
  When \<^verbatim>\<open>split_data\<close> returns. The concatenation needs a frame from every source; the
  rest needs the columns \<^verbatim>\<open>content\<close> and \<^verbatim>\<open>header\<close> and no content that is
  \<^verbatim>\<open>None\<close>. A document for which the splitter returns no chunk is no obstacle: the filter
  of line 611 removes it before line 614 reads the chunks.
\<close>

lemma concat_sources_returns:
  "(\<exists>df. concat_sources md rst slack so code issues reg = Inr df) \<longleftrightarrow>
     md \<noteq> [] \<and> rst \<noteq> [] \<and> slack \<noteq> [] \<and> so \<noteq> [] \<and> code \<noteq> [] \<and> issues \<noteq> [] \<and> reg \<noteq> []"
  by (auto simp: concat_sources_def concat_frames_def ebind_def)

lemma split_frame_returns:
  "(\<exists>out. split_frame l sp df = Inr out) \<longleftrightarrow>
     ''content'' \<in> set (columns df) \<and> ''header'' \<in> set (columns df)
     \<and> (\<forall>r \<in> set (rows df). cell_of r ''content'' \<noteq> PyNone)"
proof
  assume "\<exists>out. split_frame l sp df = Inr out"
  then obtain out where out: "split_frame l sp df = Inr out" ..
  from split_frame_Inr(3) [OF out]
  have "\<forall>r \<in> set (rows df). cell_of r ''content'' \<noteq> PyNone"
    by (auto simp: page_content_def)
  with split_frame_Inr(1,2) [OF out]
  show "''content'' \<in> set (columns df) \<and> ''header'' \<in> set (columns df)
     \<and> (\<forall>r \<in> set (rows df). cell_of r ''content'' \<noteq> PyNone)"
    by simp
next
  assume a: "''content'' \<in> set (columns df) \<and> ''header'' \<in> set (columns df)
     \<and> (\<forall>r \<in> set (rows df). cell_of r ''content'' \<noteq> PyNone)"
  have "doc_chunks l sp r = Inr (r, row_chunks l sp r)" if "r \<in> set (rows df)" for r
    using a that
    by (cases "cell_of r ''content''") (auto simp: doc_chunks_def row_chunks_def page_content_def)
  then have "emap (doc_chunks l sp) (rows df) = Inr (map (\<lambda>r. (r, row_chunks l sp r)) (rows df))"
    by (rule emap_total)
  with a show "\<exists>out. split_frame l sp df = Inr out"
    by (simp add: split_frame_def ebind_def Let_def emap_chunk_row drop_column_def)
qed

lemma split_data_returns:
  assumes "concat_sources md rst slack so code issues reg = Inr df"
  shows "(\<exists>out. split_data l md rst slack so code issues reg = Inr out) \<longleftrightarrow>
     ''content'' \<in> set (columns df) \<and> ''header'' \<in> set (columns df)
     \<and> (\<forall>r \<in> set (rows df). cell_of r ''content'' \<noteq> PyNone)"
  using assms split_frame_returns [of l RecursiveCharacterTextSplitter df]
  by (simp add: split_data_def ebind_def)

lemma sample_split_data:
  "split_data sample_lib [sample_md] [no_docs] [no_docs] [no_docs] [sample_code] [no_docs]
     [linked_docs] = Inr sample_chunks"
  by code_simp

text \<open>
  C10. Every content value in the frame that \<^verbatim>\<open>split_data\<close> returns is the
  \<^verbatim>\<open>html2text\<close> rendering of a chunk with every newline replaced by a space and every
  backslash removed; it contains no newline and no backslash.
\<close>

theorem split_data_content_clean:
  assumes "split_data l md rst slack so code issues reg = Inr out"
  shows "\<forall>r \<in> set (rows out). \<exists>chunk s.
           cell_of r ''content'' = Str s
           \<and> s = filter (\<lambda>c. c \<noteq> backslash)
                   (map (\<lambda>c. if c = newline then CHR '' '' else c) (html2text l chunk))
           \<and> newline \<notin> set s \<and> backslash \<notin> set s"
proof
  fix r assume r: "r \<in> set (rows out)"
  from assms obtain df where
    sf: "split_frame l RecursiveCharacterTextSplitter df = Inr out"
    by (rule split_data_Inr)
  from r split_frame_Inr(5) [OF sf] obtain rc where "r = finish_row l rc" by auto
  then have "cell_of r ''content'' = Str (chunk_content l (snd rc))"
    by (simp add: cell_of_finish_row)
  then show "\<exists>chunk s. cell_of r ''content'' = Str s
           \<and> s = filter (\<lambda>c. c \<noteq> backslash)
                   (map (\<lambda>c. if c = newline then CHR '' '' else c) (html2text l chunk))
           \<and> newline \<notin> set s \<and> backslash \<notin> set s"
    using chunk_content_clean [of l "snd rc"] chunk_content_eq [of l "snd rc"]
    by (intro exI [of _ "snd rc"] exI [of _ "chunk_content l (snd rc)"]) simp
qed

theorem split_data_content_clean_witness:
  "split_data sample_lib [sample_md] [no_docs] [no_docs] [no_docs] [sample_code] [no_docs]
     [linked_docs] = Inr sample_chunks
   \<and> cell_of (rows sample_chunks ! 0) ''content'' = Str ''# A xy # B  ''
   \<and> newline \<notin> set ''# A xy # B  '' \<and> backslash \<notin> set ''# A xy # B  ''
   \<and> cell_of (rows sample_chunks ! 1) ''content'' = Str ''nan  ''"
proof -
  have n: "cell_of (rows sample_chunks ! 1) ''content'' = Str ''nan  ''" by code_simp
  have r: "rows sample_chunks ! 0 \<in> set (rows sample_chunks)" by code_simp
  have c: "cell_of (rows sample_chunks ! 0) ''content'' = Str ''# A xy # B  ''" by code_simp
  from split_data_content_clean [OF sample_split_data] r
  obtain s where "cell_of (rows sample_chunks ! 0) ''content'' = Str s"
    and "newline \<notin> set s" and "backslash \<notin> set s"
    by blast
  with c n sample_split_data show ?thesis by simp
qed

lemma remove_two_columns:
  assumes "A \<subseteq> U" and "U \<subseteq> insert h A" and "h \<notin> A" and "d \<notin> A"
    and "C = U - {h, d}"
  shows "C = A"
  using assms by auto

lemma set_filter_two:
  "set (filter (\<lambda>c. c \<noteq> h) (filter (\<lambda>c. c \<noteq> d) xs)) = set xs - {h, d}"
  by auto

text \<open>
  C5. When the input frames together have the columns \<^verbatim>\<open>docSource\<close>, \<^verbatim>\<open>sha\<close>,
  \<^verbatim>\<open>docLink\<close> and \<^verbatim>\<open>content\<close> and no column other than these and \<^verbatim>\<open>header\<close>,
  which is the record shape of the data model, every record that \<^verbatim>\<open>split_data\<close> returns
  has exactly the fields \<^verbatim>\<open>docSource\<close>, \<^verbatim>\<open>sha\<close>, \<^verbatim>\<open>docLink\<close> and \<^verbatim>\<open>content\<close>,
  each once, and no \<^verbatim>\<open>header\<close>, whichever of the frames have which of the columns.
\<close>

theorem split_data_record_shape:
  assumes "split_data l md rst slack so code issues reg = Inr out"
    and "{''docSource'', ''sha'', ''docLink'', ''content''}
           \<subseteq> (\<Union>f \<in> set (md @ rst @ slack @ so @ code @ issues @ reg). set (columns f))"
    and "(\<Union>f \<in> set (md @ rst @ slack @ so @ code @ issues @ reg). set (columns f))
           \<subseteq> {''header'', ''docSource'', ''sha'', ''docLink'', ''content''}"
  shows "set (columns out) = {''docSource'', ''sha'', ''docLink'', ''content''}
         \<and> distinct (columns out)
         \<and> (\<forall>r \<in> set (rows out). row_fields r = columns out)"
proof -
  from assms(1) obtain df where
    cs: "concat_sources md rst slack so code issues reg = Inr df" and
    sf: "split_frame l RecursiveCharacterTextSplitter df = Inr out"
    by (rule split_data_Inr)
  note src = concat_sources_Inr [OF cs]
  note res = split_frame_Inr [OF sf]
  have cols: "columns out =
      filter (\<lambda>c. c \<noteq> ''header'') (filter (\<lambda>c. c \<noteq> ''doc_chunks'') (columns df))"
    by (rule res(4))
  have C: "set (columns out) = set (columns df) - {''header'', ''doc_chunks''}"
    unfolding cols by (rule set_filter_two)
  have A: "{''docSource'', ''sha'', ''docLink'', ''content''} \<subseteq> set (columns df)"
    using assms(2) unfolding src(1) .
  have B: "set (columns df) \<subseteq> insert ''header'' {''docSource'', ''sha'', ''docLink'', ''content''}"
    using assms(3) unfolding src(1) .
  have h: "''header'' \<notin> {''docSource'', ''sha'', ''docLink'', ''content''}" by simp
  have d: "''doc_chunks'' \<notin> {''docSource'', ''sha'', ''docLink'', ''content''}" by simp
  have 1: "set (columns out) = {''docSource'', ''sha'', ''docLink'', ''content''}"
    by (rule remove_two_columns [OF A B h d C])
  have 2: "distinct (columns out)" unfolding cols using src(2) by simp
  have 3: "\<forall>r \<in> set (rows out). row_fields r = columns out"
  proof
    fix r assume "r \<in> set (rows out)"
    with res(5) obtain rc where rc: "r = finish_row l rc" and
      "rc \<in> set (chunk_pairs (map (\<lambda>r. (r, row_chunks l RecursiveCharacterTextSplitter r)) (rows df)))"
      by auto
    then have "fst rc \<in> set (rows df)" by (simp add: chunk_pairs_mem)
    with src(3) have f: "row_fields (fst rc) = columns df" by simp
    with res(1) have "''content'' \<in> set (row_fields (fst rc))" by simp
    then have "row_fields (finish_row l rc) =
        filter (\<lambda>c. c \<noteq> ''header'') (filter (\<lambda>c. c \<noteq> ''doc_chunks'') (row_fields (fst rc)))"
      by (rule row_fields_finish_row)
    then show "row_fields r = columns out"
      unfolding rc cols f .
  qed
  from 1 2 3 show ?thesis by (intro conjI)
qed

theorem split_data_record_shape_witness:
  "split_data sample_lib [sample_md] [no_docs] [no_docs] [no_docs] [sample_code] [no_docs]
     [linked_docs] = Inr sample_chunks
   \<and> set (columns sample_chunks) = {''docSource'', ''sha'', ''docLink'', ''content''}
   \<and> distinct (columns sample_chunks)
   \<and> row_fields (rows sample_chunks ! 1) = columns sample_chunks"
proof -
  have r: "rows sample_chunks ! 1 \<in> set (rows sample_chunks)" by code_simp
  have "set (columns sample_chunks) = {''docSource'', ''sha'', ''docLink'', ''content''}
        \<and> distinct (columns sample_chunks)
        \<and> (\<forall>r \<in> set (rows sample_chunks). row_fields r = columns sample_chunks)"
    by (rule split_data_record_shape [OF sample_split_data])
       (simp_all add: sample_md_def no_docs_def sample_code_def linked_docs_def doc_columns_def)
  with r sample_split_data show ?thesis by blast
qed




text \<open>
  C6. The docstring of \<^verbatim>\<open>split_data\<close> and the claim have the content split at markdown
  headers; the code calls the recursive character splitter of line 608, the header
  splitter of line 607 being commented out. On the sample document with the two headers
  \<^verbatim>\<open># A\<close> and \<^verbatim>\<open># B\<close> the code returns one record that holds both, where splitting by
  header gives a record for each.
\<close>

theorem split_data_not_by_header:
  "map_sum id (\<lambda>df. map (\<lambda>r. cell_of r ''content'') (rows df))
     (split_data sample_lib [sample_md] [no_docs] [no_docs] [no_docs] [sample_code] [no_docs]
     [linked_docs])
   = Inr [Str ''# A xy # B  '', Str ''nan  '', Str ''pass  '']
   \<and> map_sum id (\<lambda>df. map (\<lambda>r. cell_of r ''content'') (rows df))
     (split_data_by_header sample_lib [sample_md] [no_docs] [no_docs] [no_docs] [sample_code] [no_docs]
     [linked_docs])
   = Inr [Str ''# A xy  '', Str ''# B  '', Str ''nan  '', Str ''pass  '']"
  by code_simp

text \<open>
  C2. \<^verbatim>\<open>import_data\<close> always returns, and the uuid it computes for a record is
  \<^verbatim>\<open>generate_uuid5\<close> of the dict of the record's fields: two records with the same fields
  get the same uuid, whatever frame, position and class name they come with.
\<close>

theorem import_data_uuid_deterministic:
  assumes "i < length (rows d1)" and "j < length (rows d2)"
    and "record_at d1 i = record_at d2 j"
  shows "\<exists>a1 a2. import_data l d1 c1 = Inr a1 \<and> import_data l d2 c2 = Inr a2
           \<and> cell_of (rows (data a1) ! i) ''uuid'' =
               Str (generate_uuid5 l (OfDict (record_at d1 i)))
           \<and> cell_of (rows (data a1) ! i) ''uuid'' = cell_of (rows (data a2) ! j) ''uuid''"
proof -
  have row: "\<exists>a. import_data l d c = Inr a
               \<and> cell_of (rows (data a) ! k) ''uuid'' =
                   Str (generate_uuid5 l (OfDict (record_at d k)))"
    if "k < length (rows d)" for d c k
  proof -
    obtain a where a: "import_data l d c = Inr a"
      by (simp add: import_data_def ebind_def concat_frames_def)
    then have "rows (data a) =
        map (\<lambda>(i, x). set_cell ''uuid'' (Str (generate_uuid5 l (OfDict x))) x)
          (enumerate 0 (map (align (union_columns [d])) (rows d)))"
      by (auto simp: import_data_def ebind_Inr concat_frames_def assign_column_def)
    with that have "cell_of (rows (data a) ! k) ''uuid'' =
                   Str (generate_uuid5 l (OfDict (record_at d k)))"
      by (simp add: nth_enumerate_eq record_at_def cell_of_set_cell)
    with a show ?thesis by blast
  qed
  from row [OF assms(1), of c1] row [OF assms(2), of c2] assms(3) show ?thesis
    by auto
qed

lemma sample_equal_records:
  "1 < length (rows sample_md)" "0 < length (rows empty_doc)"
  "record_at sample_md 1 = record_at empty_doc 0"
  by code_simp+

theorem import_data_uuid_deterministic_witness:
  "\<exists>a1 a2. import_data sample_lib sample_md ''Docs'' = Inr a1
         \<and> import_data sample_lib empty_doc ''Other'' = Inr a2
         \<and> cell_of (rows (data a1) ! 1) ''uuid'' =
             Str (generate_uuid5 sample_lib (OfDict (record_at sample_md 1)))
         \<and> cell_of (rows (data a1) ! 1) ''uuid'' = cell_of (rows (data a2) ! 0) ''uuid''"
  by (rule import_data_uuid_deterministic [OF sample_equal_records])

section \<open>Properties of the extract tasks\<close>

lemma cell_of_set_cell_other: "k \<noteq> c \<Longrightarrow> cell_of (set_cell c v r) k = cell_of r k"
proof -
  assume kc: "k \<noteq> c"
  have "map_of (map (\<lambda>(a, x). if a = c then (a, v) else (a, x)) r) k = map_of r k"
    using kc by (induction r) auto
  moreover have "map_of (r @ [(c, v)]) k = map_of r k"
    using kc by (simp add: map_add_def split: option.splits)
  ultimately show ?thesis by (simp add: cell_of_def set_cell_def)
qed

lemma to_float_float: "to_float l x = Inr v \<Longrightarrow> v = NaN \<or> (\<exists>q. v = Num q)"
  by (auto simp: to_float_def split: cell.splits option.splits)

lemma astype_float_Inr:
  assumes "astype_float l c rs = Inr rs'"
  shows "list_all2 (\<lambda>r r'. \<exists>v. to_float l (cell_of r c) = Inr v \<and> r' = set_cell c v r) rs rs'"
  using assms unfolding astype_float_def emap_Inr
  by (auto simp: ebind_Inr elim!: list_all2_mono)

lemma list_all2_right:
  "list_all2 P xs ys \<Longrightarrow> y \<in> set ys \<Longrightarrow> \<exists>x \<in> set xs. P x y"
  by (induction rule: list_all2_induct) auto

lemma astype_float_cell:
  assumes "astype_float l c rs = Inr rs'" and "r' \<in> set rs'"
  shows "cell_of r' c = NaN \<or> (\<exists>q. cell_of r' c = Num q)"
proof -
  from list_all2_right [OF astype_float_Inr [OF assms(1)] assms(2)]
  obtain r v where "to_float l (cell_of r c) = Inr v" and "r' = set_cell c v r"
    by blast
  then show ?thesis using to_float_float [of l "cell_of r c" v] by (simp add: cell_of_set_cell)
qed

lemma astype_float_other:
  assumes "astype_float l c rs = Inr rs'" and "r' \<in> set rs'" and "k \<noteq> c"
  shows "\<exists>r \<in> set rs. cell_of r' k = cell_of r k"
proof -
  from list_all2_right [OF astype_float_Inr [OF assms(1)] assms(2)]
  obtain r v where "r \<in> set rs" and "r' = set_cell c v r"
    by blast
  with assms(3) show ?thesis by (auto simp: cell_of_set_cell_other)
qed

lemma slack_messages_floats:
  assumes "slack_messages l df = Inr msgs" and "m \<in> set msgs"
  shows "cell_of m ''ts'' = NaN \<or> (\<exists>q. cell_of m ''ts'' = Num q)"
    and "cell_of m ''thread_ts'' = NaN \<or> (\<exists>q. cell_of m ''thread_ts'' = Num q)"
proof -
  from assms(1) obtain rs rs1 where
    1: "astype_float l ''thread_ts'' rs = Inr rs1" and
    2: "astype_float l ''ts'' rs1 = Inr msgs"
    by (auto simp: slack_messages_def ebind_Inr)
  from astype_float_cell [OF 2 assms(2)]
  show "cell_of m ''ts'' = NaN \<or> (\<exists>q. cell_of m ''ts'' = Num q)" .
  from astype_float_other [OF 2 assms(2), of "''thread_ts''"]
  obtain r where "r \<in> set rs1" and "cell_of m ''thread_ts'' = cell_of r ''thread_ts''"
    by auto
  with astype_float_cell [OF 1]
  show "cell_of m ''thread_ts'' = NaN \<or> (\<exists>q. cell_of m ''thread_ts'' = Num q)" by simp
qed

lemma reply_of_fillna:
  assumes "reply_of l (fillna_thread_ts m) = Inr rep"
    and "cell_of m ''thread_ts'' = NaN \<or> (\<exists>q. cell_of m ''thread_ts'' = Num q)"
  shows "\<exists>t stamp. cell_of m ''ts'' = Num t \<and> fromtimestamp l t = Inr stamp
           \<and> reply_ts rep = t
           \<and> reply_thread_ts rep =
               Some (case cell_of m ''thread_ts'' of Num k \<Rightarrow> k | _ \<Rightarrow> t)
           \<and> reply_content rep =
               ''### ['' @ stamp @ ''] <@'' @ str_cell l (cell_of m ''user'') @ ''>''
               @ [newline, newline] @ str_cell l (cell_of m ''text'')"
proof (cases "cell_of m ''thread_ts'' = NaN")
  case True
  then have f: "fillna_thread_ts m = set_cell ''thread_ts'' (cell_of m ''ts'') m"
    by (simp add: fillna_thread_ts_def isna_def)
  have c: "cell_of (fillna_thread_ts m) ''ts'' = cell_of m ''ts''"
    "cell_of (fillna_thread_ts m) ''user'' = cell_of m ''user''"
    "cell_of (fillna_thread_ts m) ''text'' = cell_of m ''text''"
    "cell_of (fillna_thread_ts m) ''thread_ts'' = cell_of m ''ts''"
    unfolding f by (simp_all add: cell_of_set_cell_other cell_of_set_cell)
  from assms(1) True show ?thesis
    unfolding reply_of_def c reply_md_format_def by (auto split: cell.splits sum.splits)
next
  case False
  with assms(2) obtain k where k: "cell_of m ''thread_ts'' = Num k" by auto
  then have f: "fillna_thread_ts m = m" by (simp add: fillna_thread_ts_def isna_def)
  from assms(1) k show ?thesis
    unfolding reply_of_def f reply_md_format_def by (auto split: cell.splits sum.splits)
qed

lemma thread_keys_set:
  "set (thread_keys rs) = {k. \<exists>r \<in> set rs. reply_thread_ts r = Some k}"
  by (auto simp: thread_keys_def split: option.splits)

lemma thread_keys_sorted: "sorted (thread_keys rs)" "distinct (thread_keys rs)"
  by (simp_all add: thread_keys_def)

lemma thread_keys_perm:
  assumes "mset xs = mset ys"
  shows "thread_keys xs = thread_keys ys"
proof -
  from assms have "set xs = set ys" by (rule mset_eq_setD)
  then have "set (thread_keys xs) = set (thread_keys ys)" by (simp add: thread_keys_set)
  with thread_keys_sorted show ?thesis by (intro sorted_distinct_set_unique) auto
qed

lemma thread_members_sorted:
  assumes "sorts_by_ts f"
  shows "sorted (map reply_ts (thread_members k (f xs)))"
    and "mset (thread_members k (f xs)) = mset (thread_members k xs)"
    and "thread_keys (f xs) = thread_keys xs"
proof -
  from assms have m: "mset (f xs) = mset xs" and s: "sorted (map reply_ts (f xs))"
    by (simp_all add: sorts_by_ts_def)
  from s show "sorted (map reply_ts (thread_members k (f xs)))"
    unfolding thread_members_def by (rule sorted_filter)
  from m show "mset (thread_members k (f xs)) = mset (thread_members k xs)"
    by (simp add: thread_members_def)
  from m show "thread_keys (f xs) = thread_keys xs" by (rule thread_keys_perm)
qed

lemma join_concat:
  "xs \<noteq> [] \<Longrightarrow> join sep xs = concat (map (\<lambda>x. x @ sep) (butlast xs)) @ last xs"
  by (induction sep xs rule: join.induct) simp_all

lemma sample_extract_slack:
  "extract_slack sample_lib sample_disk (hd slack_channel_sources) = Inr sample_threads"
  by code_simp

lemma sample_sorts_by_ts: "sorts_by_ts (sort_values sample_lib)"
  by (simp add: sample_lib_def sorts_by_ts_def)


text \<open>
  C9. When \<^verbatim>\<open>sort_values\<close> sorts, and \<^verbatim>\<open>extract_slack\<close> returns: every message has
  as thread key its \<^verbatim>\<open>thread_ts\<close>, or its own \<^verbatim>\<open>ts\<close> when the \<^verbatim>\<open>thread_ts\<close> is
  missing, and as formatted text a heading with its time and user followed by its text;
  the output has one record for each distinct thread key, in ascending order of the keys;
  and the content of the record of a key is the title of the channel followed by the
  formatted texts of exactly the messages of that key, in ascending order of \<^verbatim>\<open>ts\<close>,
  with a newline between one and the next.
\<close>

theorem extract_slack_threads:
  assumes "sorts_by_ts (sort_values l)" and "extract_slack l d source = Inr out"
  shows "\<exists>df msgs replies keys.
      read_parquet d ''include/data/slack/troubleshooting.parquet'' = Inr df
    \<and> slack_messages l df = Inr msgs \<and> msgs \<noteq> []
    \<and> list_all2 (\<lambda>m rep. \<exists>t stamp. cell_of m ''ts'' = Num t \<and> fromtimestamp l t = Inr stamp
          \<and> reply_ts rep = t
          \<and> (cell_of m ''thread_ts'' = NaN \<or> (\<exists>k. cell_of m ''thread_ts'' = Num k))
          \<and> reply_thread_ts rep = Some (case cell_of m ''thread_ts'' of Num k \<Rightarrow> k | _ \<Rightarrow> t)
          \<and> reply_content rep =
               ''### ['' @ stamp @ ''] <@'' @ str_cell l (cell_of m ''user'') @ ''>''
               @ [newline, newline] @ str_cell l (cell_of m ''text'')) msgs replies
    \<and> (\<forall>x. str_cell l (Str x) = x)
    \<and> distinct keys \<and> sorted keys
    \<and> set keys = {k. \<exists>r \<in> set replies. reply_thread_ts r = Some k}
    \<and> length (rows out) = length keys
    \<and> (\<forall>i < length keys. \<exists>ms.
          ms = filter (\<lambda>r. reply_thread_ts r = Some (keys ! i)) (sort_values l replies)
        \<and> ms \<noteq> [] \<and> sorted (map reply_ts ms)
        \<and> mset ms = mset (filter (\<lambda>r. reply_thread_ts r = Some (keys ! i)) replies)
        \<and> cell_of (rows out ! i) ''content'' =
            Str (''# slack: '' @ team_name source @ [newline, newline]
                 @ ''## '' @ channel_name source @ [newline, newline]
                 @ concat (map (\<lambda>r. reply_content r @ [newline]) (butlast ms))
                 @ reply_content (last ms)))"
proof -
  from assms(2) obtain df replies where
    df: "read_parquet d ''include/data/slack/troubleshooting.parquet'' = Inr df" and
    rp: "slack_replies l df = Inr replies" and
    out: "rows out = map (thread_record l source) (groupby_thread_ts (sort_values l replies))"
    by (auto simp: extract_slack_def ebind_Inr)
  from rp obtain msgs where
    msgs: "slack_messages l df = Inr msgs" and ne: "msgs \<noteq> []" and
    em: "emap (reply_of l) (map fillna_thread_ts msgs) = Inr replies"
    by (auto simp: slack_replies_def ebind_Inr split: if_splits)
  from em have "list_all2 (\<lambda>m rep. reply_of l (fillna_thread_ts m) = Inr rep) msgs replies"
    by (simp add: emap_Inr list_all2_map1)
  then have la: "list_all2 (\<lambda>m rep. \<exists>t stamp. cell_of m ''ts'' = Num t \<and> fromtimestamp l t = Inr stamp
          \<and> reply_ts rep = t
          \<and> (cell_of m ''thread_ts'' = NaN \<or> (\<exists>k. cell_of m ''thread_ts'' = Num k))
          \<and> reply_thread_ts rep = Some (case cell_of m ''thread_ts'' of Num k \<Rightarrow> k | _ \<Rightarrow> t)
          \<and> reply_content rep =
               ''### ['' @ stamp @ ''] <@'' @ str_cell l (cell_of m ''user'') @ ''>''
               @ [newline, newline] @ str_cell l (cell_of m ''text'')) msgs replies"
  proof (rule list.rel_mono_strong)
    fix m rep
    assume "m \<in> set msgs" and r: "reply_of l (fillna_thread_ts m) = Inr rep"
    note fl = slack_messages_floats(2) [OF msgs this(1)]
    from reply_of_fillna [OF r fl] fl
    show "\<exists>t stamp. cell_of m ''ts'' = Num t \<and> fromtimestamp l t = Inr stamp
          \<and> reply_ts rep = t
          \<and> (cell_of m ''thread_ts'' = NaN \<or> (\<exists>k. cell_of m ''thread_ts'' = Num k))
          \<and> reply_thread_ts rep = Some (case cell_of m ''thread_ts'' of Num k \<Rightarrow> k | _ \<Rightarrow> t)
          \<and> reply_content rep =
               ''### ['' @ stamp @ ''] <@'' @ str_cell l (cell_of m ''user'') @ ''>''
               @ [newline, newline] @ str_cell l (cell_of m ''text'')"
      by blast
  qed
  note srt = thread_members_sorted [OF assms(1)]
  define keys where "keys = thread_keys replies"
  have rows: "rows out =
        map (\<lambda>k. thread_record l source
                   (k, join [newline]
                         (map reply_content (thread_members k (sort_values l replies)))))
          keys"
    unfolding out groupby_thread_ts_def srt(3) keys_def by (simp add: comp_def)
  have kd: "distinct keys" "sorted keys"
    and ks: "set keys = {k. \<exists>r \<in> set replies. reply_thread_ts r = Some k}"
    unfolding keys_def by (simp_all add: thread_keys_sorted thread_keys_set)
  have len: "length (rows out) = length keys" unfolding rows by simp
  have grp: "\<exists>ms.
          ms = filter (\<lambda>r. reply_thread_ts r = Some (keys ! i)) (sort_values l replies)
        \<and> ms \<noteq> [] \<and> sorted (map reply_ts ms)
        \<and> mset ms = mset (filter (\<lambda>r. reply_thread_ts r = Some (keys ! i)) replies)
        \<and> cell_of (rows out ! i) ''content'' =
            Str (''# slack: '' @ team_name source @ [newline, newline]
                 @ ''## '' @ channel_name source @ [newline, newline]
                 @ concat (map (\<lambda>r. reply_content r @ [newline]) (butlast ms))
                 @ reply_content (last ms))"
    if i: "i < length keys" for i
  proof -
    define ms where "ms = thread_members (keys ! i) (sort_values l replies)"
    from i have "keys ! i \<in> set keys" by simp
    with ks obtain r where "r \<in> set replies" and "reply_thread_ts r = Some (keys ! i)"
      by auto
    then have "r \<in># mset (thread_members (keys ! i) replies)"
      by (simp add: thread_members_def)
    then have "r \<in># mset ms" unfolding ms_def srt(2) .
    then have msne: "ms \<noteq> []" by auto
    have s: "sorted (map reply_ts ms)" unfolding ms_def by (rule srt(1))
    have m: "mset ms = mset (filter (\<lambda>r. reply_thread_ts r = Some (keys ! i)) replies)"
      unfolding ms_def srt(2) by (simp add: thread_members_def)
    from msne have j: "join [newline] (map reply_content ms) =
        concat (map (\<lambda>r. reply_content r @ [newline]) (butlast ms)) @ reply_content (last ms)"
      by (simp add: join_concat map_butlast [symmetric] last_map comp_def)
    from i have "rows out ! i =
        thread_record l source (keys ! i, join [newline] (map reply_content ms))"
      unfolding rows ms_def by simp
    then have c: "cell_of (rows out ! i) ''content'' =
            Str (''# slack: '' @ team_name source @ [newline, newline]
                 @ ''## '' @ channel_name source @ [newline, newline]
                 @ concat (map (\<lambda>r. reply_content r @ [newline]) (butlast ms))
                 @ reply_content (last ms))"
      unfolding j [symmetric]
      by (simp add: thread_record_def cell_of_def Let_def message_md_format_def)
    have "ms = filter (\<lambda>r. reply_thread_ts r = Some (keys ! i)) (sort_values l replies)"
      by (simp add: ms_def thread_members_def)
    with msne s m c show ?thesis by blast
  qed
  have str: "\<forall>x. str_cell l (Str x) = x" by (simp add: str_cell_def)
  from df msgs ne la str kd ks len grp show ?thesis by blast
qed

theorem extract_slack_threads_witness:
  "extract_slack sample_lib sample_disk (hd slack_channel_sources) = Inr sample_threads
   \<and> (\<exists>keys :: rat list.
         distinct keys \<and> sorted keys \<and> length (rows sample_threads) = length keys)
   \<and> length (rows sample_threads) = 2
   \<and> cell_of (rows sample_threads ! 0) ''content'' =
       Str (''# slack: Airflow Slack Community'' @ [newline, newline] @ ''## troubleshooting''
            @ [newline, newline] @ ''### [1.0] <@U1>'' @ [newline, newline] @ ''help''
            @ [newline] @ ''### [2.0] <@U2>'' @ [newline, newline] @ ''try this'')"
proof -
  from extract_slack_threads [OF sample_sorts_by_ts sample_extract_slack]
  obtain keys :: "rat list" where
    "distinct keys" and "sorted keys" and "length (rows sample_threads) = length keys"
    by (elim exE conjE) (rule that; assumption)
  then have "\<exists>keys :: rat list.
      distinct keys \<and> sorted keys \<and> length (rows sample_threads) = length keys"
    by (intro exI [of _ keys] conjI)
  moreover have "length (rows sample_threads) = 2" by code_simp
  moreover have "cell_of (rows sample_threads ! 0) ''content'' =
       Str (''# slack: Airflow Slack Community'' @ [newline, newline] @ ''## troubleshooting''
            @ [newline, newline] @ ''### [1.0] <@U1>'' @ [newline, newline] @ ''help''
            @ [newline] @ ''### [2.0] <@U2>'' @ [newline, newline] @ ''try this'')"
    by code_simp
  ultimately show ?thesis using sample_extract_slack by (intro conjI)
qed





end
